theory Spec2Isabelle
  imports Main "HOL-Library.Sublist" "HOL-Library.Word"
begin

section \<open>Python strings\<close>

text \<open>
  A Python \<open>str\<close> is a sequence of Unicode code points, so a string is a list of
  code points. String constants of the source are written \<open>lit ''...''\<close>; all of
  them are ASCII.
\<close>

type_synonym pystr = "nat list"

definition lit :: "string \<Rightarrow> pystr" where
  "lit s = map of_char s"

text \<open>\<open>a + b\<close> on strings is \<open>a @ b\<close>; \<open>sep.join(xs)\<close>:\<close>

fun join :: "pystr \<Rightarrow> pystr list \<Rightarrow> pystr" where
  "join sep [] = []"
| "join sep [x] = x"
| "join sep (x # y # ys) = x @ sep @ join sep (y # ys)"

text \<open>\<open>sub in s\<close>: \<open>sub\<close> occurs in \<open>s\<close> as a contiguous block.\<close>

fun starts_with :: "pystr \<Rightarrow> pystr \<Rightarrow> bool" where
  "starts_with [] s = True"
| "starts_with (p # ps) [] = False"
| "starts_with (p # ps) (c # cs) = (p = c \<and> starts_with ps cs)"

fun py_in :: "pystr \<Rightarrow> pystr \<Rightarrow> bool" where
  "py_in sub [] = (sub = [])"
| "py_in sub (c # cs) = (starts_with sub (c # cs) \<or> py_in sub cs)"

text \<open>
  \<open>s.lower()\<close>. On a string of ASCII characters only, Python maps \<open>A\<close>..\<open>Z\<close> to
  \<open>a\<close>..\<open>z\<close> and leaves every other character alone. On any other string it applies the
  Unicode case mapping, which is not part of this repository: it is the parameter
  \<open>ul\<close>, about which nothing is assumed.
\<close>

definition is_ascii :: "pystr \<Rightarrow> bool" where
  "is_ascii s = list_all (\<lambda>c. c < 128) s"

definition ascii_lower :: "nat \<Rightarrow> nat" where
  "ascii_lower c = (if 65 \<le> c \<and> c \<le> 90 then c + 32 else c)"

definition lower :: "(pystr \<Rightarrow> pystr) \<Rightarrow> pystr \<Rightarrow> pystr" where
  "lower ul s = (if is_ascii s then map ascii_lower s else ul s)"

text \<open>
  \<open>s.strip()\<close> removes leading and trailing whitespace; \<open>isspace\<close> lists the code
  points Python counts as whitespace.
\<close>

definition isspace :: "nat \<Rightarrow> bool" where
  "isspace c =
     ((9 \<le> c \<and> c \<le> 13) \<or> (28 \<le> c \<and> c \<le> 32) \<or> c = 133 \<or> c = 160 \<or> c = 5760
      \<or> (8192 \<le> c \<and> c \<le> 8202) \<or> c = 8232 \<or> c = 8233 \<or> c = 8239 \<or> c = 8287
      \<or> c = 12288)"

definition strip :: "pystr \<Rightarrow> pystr" where
  "strip s = rev (dropWhile isspace (rev (dropWhile isspace s)))"

text \<open>\<open>s.replace(old, new)\<close> for a one-character \<open>old\<close> and \<open>new\<close>.\<close>

definition replace :: "nat \<Rightarrow> nat \<Rightarrow> pystr \<Rightarrow> pystr" where
  "replace old new s = map (\<lambda>c. if c = old then new else c) s"

section \<open>Classifier\<close>

text \<open>The module constant \<open>TOOLS_BY_DISTRO\<close>, a dictionary with two keys.\<close>

definition TOOLS_BY_DISTRO :: "pystr \<rightharpoonup> pystr list" where
  "TOOLS_BY_DISTRO = map_of
     [(lit ''alpine'',
        [lit ''socat'', lit ''curl'', lit ''wget'', lit ''netcat-openbsd'', lit ''strace'',
         lit ''procps'', lit ''iproute2'', lit ''lsof'', lit ''findutils'', lit ''bash'',
         lit ''less'']),
      (lit ''debian'',
        [lit ''socat'', lit ''curl'', lit ''wget'', lit ''netcat-traditional'', lit ''strace'',
         lit ''procps'', lit ''iproute2'', lit ''lsof'', lit ''findutils'', lit ''bash'',
         lit ''less''])]"

definition guess_base_image :: "(pystr \<Rightarrow> pystr) \<Rightarrow> pystr \<Rightarrow> pystr" where
  "guess_base_image ul nm =
     (let name_lower = lower ul nm in
      if py_in (lit ''alpine'') name_lower then lit ''alpine:latest''
      else if py_in (lit ''ubuntu'') name_lower \<or> py_in (lit ''debian'') name_lower
        then lit ''debian:bookworm-slim''
      else lit ''alpine:latest'')"

definition detect_distro :: "pystr \<Rightarrow> pystr" where
  "detect_distro base_image =
     (if py_in (lit ''alpine'') base_image then lit ''alpine''
      else if py_in (lit ''debian'') base_image \<or> py_in (lit ''ubuntu'') base_image
        then lit ''debian''
      else lit ''alpine'')"

text \<open>
  \<open>sanitize_service_name\<close>: \<open>re.sub\<close> with the negated character class
  \<open>[^a-z0-9\-_]\<close> replaces each character outside the class by an underscore.
\<close>

definition service_char :: "nat \<Rightarrow> bool" where
  "service_char c = ((97 \<le> c \<and> c \<le> 122) \<or> (48 \<le> c \<and> c \<le> 57) \<or> c = 45 \<or> c = 95)"

definition sanitize_service_name :: "(pystr \<Rightarrow> pystr) \<Rightarrow> pystr \<Rightarrow> pystr" where
  "sanitize_service_name ul nm =
     map (\<lambda>c. if service_char c then c else 95) (lower ul nm)"

text \<open>
  Lines 44 to 51 of \<open>generate_dockerfile\<close>: the base image, the distro family, its tool
  list and the install command.
\<close>

definition install_plan :: "(pystr \<Rightarrow> pystr) \<Rightarrow> pystr \<Rightarrow> pystr \<times> pystr \<times> pystr list \<times> pystr" where
  "install_plan ul nm =
     (let base_image = guess_base_image ul nm;
          distro = detect_distro base_image;
          tools = (case TOOLS_BY_DISTRO distro of
                     Some ts \<Rightarrow> ts
                   | None \<Rightarrow> the (TOOLS_BY_DISTRO (lit ''alpine'')));
          install_cmd =
            (if distro = lit ''alpine''
             then lit ''apk add --no-cache '' @ join (lit '' '') tools
             else lit ''apt-get update && apt-get install -y --no-install-recommends ''
                  @ join (lit '' '') tools @ lit '' && rm -rf /var/lib/apt/lists/*'')
      in (base_image, distro, tools, install_cmd))"

section \<open>Data model\<close>

text \<open>
  What \<open>json.load\<close> returns: \<open>None\<close>, a \<open>bool\<close>, an \<open>int\<close>, a \<open>float\<close> (an IEEE
  double, kept as its 64 bits), a \<open>str\<close>, a \<open>list\<close> or a \<open>dict\<close> with string keys
  (an association list read with \<open>map_of\<close>).
\<close>

datatype json =
    JNull
  | JBool bool
  | JInt int
  | JFloat "64 word"
  | JStr pystr
  | JArr "json list"
  | JObj "(pystr \<times> json) list"

text \<open>
  A file of the input directory: \<open>json.load\<close> either raises (\<open>NotJson\<close>) or returns
  the parsed document. The directory is the list of its entries, by file name, in the
  order \<open>glob\<close> enumerates them. Opening and writing files is taken to succeed.
\<close>

datatype file_content = NotJson | Json json

type_synonym directory = "(pystr \<times> file_content) list"

text \<open>The dictionaries built at lines 97 to 102 and 123 to 127.\<close>

record metadata_record =
  name :: pystr
  namespace :: pystr
  description :: json
  source_file :: pystr

record service_info =
  service_name :: pystr
  dockerfile :: pystr
  container_name :: pystr

text \<open>
  The exceptions that leave the program: the \<open>FileNotFoundError\<close> raised by \<open>main\<close>,
  and the \<open>AttributeError\<close> of calling \<open>.strip()\<close> on a value that is not a string.
\<close>

datatype error = FileNotFoundError | AttributeError

text \<open>
  The lines printed to standard output, one constructor per \<open>print\<close> of the source
  (the printed texts are not ASCII; the constructor keeps the value that is formatted
  into the line): line 76, 81, 86, 128, 160, 179 (followed by the three usage lines
  180 to 182) and 184.
\<close>

datatype message =
    NoJsonFilesFound
  | ProcessingFile pystr
  | SkippingInvalidJson pystr
  | Generated pystr
  | ComposeGenerated pystr
  | Summary nat
  | NoServiceGenerated

text \<open>
  The state the program changes: the files of the output directory, by file name, and
  standard output.
\<close>

record world =
  files :: "pystr \<rightharpoonup> pystr"
  stdout :: "message list"

definition print :: "message \<Rightarrow> world \<Rightarrow> world" where
  "print m w = w\<lparr>stdout := stdout w @ [m]\<rparr>"

definition write_file :: "pystr \<Rightarrow> pystr \<Rightarrow> world \<Rightarrow> world" where
  "write_file path content w = w\<lparr>files := (files w)(path \<mapsto> content)\<rparr>"

section \<open>Renderer\<close>

text \<open>
  An f-string field \<open>{v}\<close> inserts a string as it is. For a value of another type it
  inserts Python's \<open>str(v)\<close>, the parameter \<open>fmt\<close>, about which nothing is assumed.
\<close>

definition format_value :: "(json \<Rightarrow> pystr) \<Rightarrow> json \<Rightarrow> pystr" where
  "format_value fmt v = (case v of JStr s \<Rightarrow> s | _ \<Rightarrow> fmt v)"

definition nl :: pystr where
  "nl = [10]"

definition backslash :: pystr where
  "backslash = [92]"

definition generate_dockerfile ::
  "(pystr \<Rightarrow> pystr) \<Rightarrow> (json \<Rightarrow> pystr) \<Rightarrow> metadata_record \<Rightarrow> pystr" where
  \<open>generate_dockerfile ul fmt record =
     (let nm = name record;
          ns = namespace record;
          descr = description record;
          full_name = ns @ lit ''/'' @ nm;
          (base_image, distro, tools, install_cmd) = install_plan ul nm;
          dockerfile_content = concat
            [lit ''# Escape target container (for research only)'', nl,
             lit ''# Based on: '', full_name, nl,
             lit ''# Description: '', format_value fmt descr, nl,
             nl,
             lit ''FROM '', base_image, nl,
             nl,
             lit ''LABEL org.security.dataset="container-escape-target"'', nl,
             lit ''LABEL source.image="'', full_name, lit ''"'', nl,
             nl,
             lit ''RUN '', install_cmd, nl,
             nl,
             lit ''# Add non-root user (but root remains default)'', nl,
             lit ''RUN adduser -D -s /bin/sh attacker 2>/dev/null || true'', nl,
             nl,
             lit ''EXPOSE 8080'', nl,
             nl,
             lit ''CMD ["sh", "-c", "while true; do echo 'HTTP/1.1 200 OK'',
               backslash, lit ''r'', backslash, lit ''n'', backslash, lit ''r'',
               backslash, lit ''nEscape Target Active' | nc -l -p 8080 -s 0.0.0.0 2>/dev/null; done"]'',
             nl]
      in strip dockerfile_content)\<close>

section \<open>Loader\<close>

text \<open>
  \<open>input_dir.glob("*.json")\<close>: the entries whose name ends in \<open>.json\<close>, on a file
  system that distinguishes upper and lower case.
\<close>

definition endswith :: "pystr \<Rightarrow> pystr \<Rightarrow> bool" where
  "endswith s suf = (length suf \<le> length s \<and> drop (length s - length suf) s = suf)"

definition glob_json :: "directory \<Rightarrow> directory" where
  "glob_json input_dir = filter (\<lambda>(f, c). endswith f (lit ''.json'')) input_dir"

text \<open>\<open>item.get(k, "").strip()\<close> on a dictionary.\<close>

definition get_stripped :: "(pystr \<times> json) list \<Rightarrow> pystr \<Rightarrow> error + pystr" where
  "get_stripped item k =
     (case map_of item k of
        None \<Rightarrow> Inr (strip [])
      | Some (JStr s) \<Rightarrow> Inr (strip s)
      | Some _ \<Rightarrow> Inl AttributeError)"

text \<open>
  The body of the loop over the items of one file (lines 91 to 103): \<open>Inr None\<close> is
  \<open>continue\<close>, \<open>Inr (Some r)\<close> is the record appended to \<open>all_records\<close>.
\<close>

definition load_item :: "pystr \<Rightarrow> json \<Rightarrow> error + metadata_record option" where
  "load_item json_file item =
     (case item of
        JObj d \<Rightarrow>
          (case get_stripped d (lit ''name'') of
             Inl e \<Rightarrow> Inl e
           | Inr nm \<Rightarrow>
               (case get_stripped d (lit ''namespace'') of
                  Inl e \<Rightarrow> Inl e
                | Inr ns \<Rightarrow>
                    if nm = [] \<or> ns = [] then Inr None
                    else Inr (Some \<lparr>name = nm, namespace = ns,
                           description = (case map_of d (lit ''description'') of
                                            None \<Rightarrow> JStr [] | Some v \<Rightarrow> v),
                           source_file = json_file\<rparr>)))
      | _ \<Rightarrow> Inr None)"

fun load_items ::
  "pystr \<Rightarrow> json list \<Rightarrow> metadata_record list \<Rightarrow> error + metadata_record list" where
  "load_items json_file [] all_records = Inr all_records"
| "load_items json_file (item # items) all_records =
     (case load_item json_file item of
        Inl e \<Rightarrow> Inl e
      | Inr None \<Rightarrow> load_items json_file items all_records
      | Inr (Some r) \<Rightarrow> load_items json_file items (all_records @ [r]))"

text \<open>The loop over the files (lines 80 to 103).\<close>

fun load_files ::
  "directory \<Rightarrow> metadata_record list \<Rightarrow> world \<Rightarrow> (error + metadata_record list) \<times> world" where
  "load_files [] all_records w = (Inr all_records, w)"
| "load_files ((json_file, c) # json_files) all_records w =
     (let w1 = print (ProcessingFile json_file) w in
      case c of
        NotJson \<Rightarrow> load_files json_files all_records (print (SkippingInvalidJson json_file) w1)
      | Json data \<Rightarrow>
          (let items = (case data of JArr xs \<Rightarrow> xs | _ \<Rightarrow> [data]) in
           case load_items json_file items all_records of
             Inl e \<Rightarrow> (Inl e, w1)
           | Inr all_records' \<Rightarrow> load_files json_files all_records' w1))"

text \<open>The deduplication loop (lines 106 to 112).\<close>

fun unique_loop ::
  "metadata_record list \<Rightarrow> (pystr \<times> pystr) set \<Rightarrow> metadata_record list \<Rightarrow> metadata_record list" where
  "unique_loop [] seen unique_records = unique_records"
| "unique_loop (r # rs) seen unique_records =
     (let key = (namespace r, name r) in
      if key \<notin> seen then unique_loop rs (insert key seen) (unique_records @ [r])
      else unique_loop rs seen unique_records)"

text \<open>The loop that writes the Dockerfiles (lines 115 to 128).\<close>

definition safe_name :: "metadata_record \<Rightarrow> pystr" where
  "safe_name record =
     replace 46 95 (replace 58 95 (replace 47 95 (namespace record @ lit ''_'' @ name record)))"

definition make_service_info :: "(pystr \<Rightarrow> pystr) \<Rightarrow> metadata_record \<Rightarrow> service_info" where
  "make_service_info ul record =
     \<lparr>service_name = sanitize_service_name ul (safe_name record),
      dockerfile = lit ''Dockerfile.'' @ safe_name record,
      container_name = lit ''escape-target-'' @ safe_name record\<rparr>"

fun write_loop ::
  "(pystr \<Rightarrow> pystr) \<Rightarrow> (json \<Rightarrow> pystr) \<Rightarrow> metadata_record list \<Rightarrow> service_info list \<Rightarrow> world
     \<Rightarrow> service_info list \<times> world" where
  "write_loop ul fmt [] service_info_list w = (service_info_list, w)"
| "write_loop ul fmt (record # records) service_info_list w =
     (let dockerfile_path = lit ''Dockerfile.'' @ safe_name record;
          w1 = write_file dockerfile_path (generate_dockerfile ul fmt record) w;
          w2 = print (Generated dockerfile_path) w1
      in write_loop ul fmt records (service_info_list @ [make_service_info ul record]) w2)"

definition process_json_files ::
  "(pystr \<Rightarrow> pystr) \<Rightarrow> (json \<Rightarrow> pystr) \<Rightarrow> directory \<Rightarrow> world
     \<Rightarrow> (error + service_info list) \<times> world" where
  "process_json_files ul fmt input_dir w =
     (let json_files = glob_json input_dir in
      if json_files = [] then (Inr [], print NoJsonFilesFound w)
      else
        (case load_files json_files [] w of
           (Inl e, w1) \<Rightarrow> (Inl e, w1)
         | (Inr all_records, w1) \<Rightarrow>
             (let unique_records = unique_loop all_records {} [];
                  (service_info_list, w2) = write_loop ul fmt unique_records [] w1
              in (Inr service_info_list, w2))))"

section \<open>Compose emitter and main\<close>

definition compose_path :: pystr where
  "compose_path = lit ''docker-compose.escape-targets.yml''"

definition service_block :: "service_info \<Rightarrow> pystr" where
  \<open>service_block info = concat
     [lit ''  '', service_name info, lit '':'', nl,
      lit ''    build:'', nl,
      lit ''      context: .'', nl,
      lit ''      dockerfile: '', dockerfile info, nl,
      lit ''    container_name: '', container_name info, nl,
      lit ''    privileged: false'', nl,
      lit ''    cap_add:'', nl,
      lit ''      - SYS_PTRACE'', nl,
      lit ''      - DAC_READ_SEARCH'', nl,
      lit ''    security_opt:'', nl,
      lit ''      - apparmor:unconfined'', nl,
      lit ''      - seccomp:unconfined'', nl,
      lit ''    volumes:'', nl,
      lit ''      - /:/host:ro'', nl,
      lit ''      - /var/run/docker.sock:/var/run/docker.sock:ro'', nl,
      lit ''    network_mode: bridge'', nl,
      lit ''    ports:'', nl,
      lit ''      - "8080"'', nl,
      lit ''    restart: unless-stopped'', nl,
      lit ''    stdin_open: true'', nl,
      lit ''    tty: true'', nl]\<close>

fun compose_loop :: "service_info list \<Rightarrow> pystr \<Rightarrow> pystr" where
  "compose_loop [] compose_content = compose_content"
| "compose_loop (info # infos) compose_content =
     compose_loop infos (compose_content @ service_block info)"

definition generate_docker_compose :: "service_info list \<Rightarrow> world \<Rightarrow> world" where
  "generate_docker_compose service_info_list w =
     (let compose_content = compose_loop service_info_list (lit ''services:'' @ nl);
          w1 = write_file compose_path compose_content w
      in print (ComposeGenerated compose_path) w1)"

text \<open>
  \<open>main\<close>, after the arguments are parsed and the output directory is created:
  \<open>input_dir\<close> is \<open>None\<close> when the input path does not exist, and its entries
  otherwise.
\<close>

definition main :: "(pystr \<Rightarrow> pystr) \<Rightarrow> (json \<Rightarrow> pystr) \<Rightarrow> directory option \<Rightarrow> world
     \<Rightarrow> (error + unit) \<times> world" where
  "main ul fmt input_dir w =
     (case input_dir of
        None \<Rightarrow> (Inl FileNotFoundError, w)
      | Some entries \<Rightarrow>
          (case process_json_files ul fmt entries w of
             (Inl e, w1) \<Rightarrow> (Inl e, w1)
           | (Inr service_info_list, w1) \<Rightarrow>
               if service_info_list \<noteq> []
               then (Inr (), print (Summary (length service_info_list))
                               (generate_docker_compose service_info_list w1))
               else (Inr (), print NoServiceGenerated w1)))"

section \<open>Notions used to state the claims\<close>

text \<open>The deduplication key of a record, as line 109 builds it.\<close>

abbreviation key_of :: "metadata_record \<Rightarrow> pystr \<times> pystr" where
  "key_of r \<equiv> (namespace r, name r)"

text \<open>The lines of a text: \<open>s.split("\\n")\<close>.\<close>

fun split_lines :: "pystr \<Rightarrow> pystr list" where
  "split_lines [] = [[]]"
| "split_lines (c # cs) =
     (if c = 10 then [] # split_lines cs
      else (case split_lines cs of [] \<Rightarrow> [[c]] | l # ls \<Rightarrow> (c # l) # ls))"

text \<open>
  The specification of the loader, in the words of claim C7. A field of an item is
  missing when it is absent or is a string that is empty after trimming. An item is
  dropped when it is not a dictionary or when its name or its namespace is missing;
  otherwise it is kept as the record \<open>spec_record\<close>. The precondition
  \<open>string_fields\<close>: the name and the namespace of a dictionary are strings when present.
\<close>

definition spec_field_missing :: "(pystr \<times> json) list \<Rightarrow> pystr \<Rightarrow> bool" where
  "spec_field_missing d k =
     (case map_of d k of None \<Rightarrow> True | Some (JStr s) \<Rightarrow> strip s = [] | Some _ \<Rightarrow> False)"

definition spec_item_dropped :: "json \<Rightarrow> bool" where
  "spec_item_dropped item =
     (case item of
        JObj d \<Rightarrow> spec_field_missing d (lit ''name'') \<or> spec_field_missing d (lit ''namespace'')
      | _ \<Rightarrow> True)"

definition spec_trimmed :: "(pystr \<times> json) list \<Rightarrow> pystr \<Rightarrow> pystr" where
  "spec_trimmed d k = (case map_of d k of Some (JStr s) \<Rightarrow> strip s | _ \<Rightarrow> [])"

definition spec_record :: "pystr \<Rightarrow> json \<Rightarrow> metadata_record" where
  "spec_record json_file item =
     (case item of
        JObj d \<Rightarrow>
          \<lparr>name = spec_trimmed d (lit ''name''),
           namespace = spec_trimmed d (lit ''namespace''),
           description = (case map_of d (lit ''description'') of None \<Rightarrow> JStr [] | Some v \<Rightarrow> v),
           source_file = json_file\<rparr>
      | _ \<Rightarrow> \<lparr>name = [], namespace = [], description = JStr [], source_file = json_file\<rparr>)"

definition is_string_or_absent :: "(pystr \<times> json) list \<Rightarrow> pystr \<Rightarrow> bool" where
  "is_string_or_absent d k =
     (case map_of d k of None \<Rightarrow> True | Some (JStr s) \<Rightarrow> True | Some _ \<Rightarrow> False)"

definition string_fields :: "json \<Rightarrow> bool" where
  "string_fields item =
     (case item of
        JObj d \<Rightarrow> is_string_or_absent d (lit ''name'') \<and> is_string_or_absent d (lit ''namespace'')
      | _ \<Rightarrow> True)"

section \<open>Facts about the helper functions and loops\<close>

lemma starts_with_prefix: "starts_with p s \<longleftrightarrow> prefix p s"
  by (induction p s rule: starts_with.induct) auto

lemma py_in_sublist: "py_in sub s \<longleftrightarrow> sublist sub s"
  by (induction s) (auto simp: starts_with_prefix sublist_Cons_right)

lemma lit_service_chars:
  "set (lit ''abcdefghijklmnopqrstuvwxyz0123456789_-'') = {97..122} \<union> {48..57} \<union> {95, 45}"
  unfolding lit_def by (simp add: atLeastAtMost_upt upt_rec [of "numeral _"] insert_commute)

lemma service_char_set:
  "service_char c \<longleftrightarrow> c \<in> set (lit ''abcdefghijklmnopqrstuvwxyz0123456789_-'')"
  unfolding lit_service_chars service_char_def by auto

lemma sanitize_chars: "list_all service_char (sanitize_service_name ul s)"
  by (auto simp: sanitize_service_name_def list_all_iff service_char_def)

lemma write_loop_fst:
  "fst (write_loop ul fmt rs acc w) = acc @ map (make_service_info ul) rs"
  by (induction rs arbitrary: acc w) (simp_all add: Let_def)














lemma load_items_append:
  "load_items f (xs @ ys) acc =
     (case load_items f xs acc of Inl e \<Rightarrow> Inl e | Inr acc' \<Rightarrow> load_items f ys acc')"
  by (induction xs arbitrary: acc) (simp_all split: sum.splits option.splits)





lemma process_json_files_services:
  assumes "fst (process_json_files ul fmt input_dir w) = Inr sil"
  shows "\<exists>rs. sil = map (make_service_info ul) rs"
proof (cases "glob_json input_dir = []")
  case True
  with assms have "sil = []" by (simp add: process_json_files_def)
  then show ?thesis by simp
next
  case False
  obtain res w1 where lf: "load_files (glob_json input_dir) [] w = (res, w1)"
    by (cases "load_files (glob_json input_dir) [] w")
  show ?thesis
  proof (cases res)
    case (Inl e)
    with assms False lf show ?thesis by (simp add: process_json_files_def)
  next
    case (Inr all_records)
    with assms False lf
    have "sil = fst (write_loop ul fmt (unique_loop all_records {} []) [] w1)"
      by (simp add: process_json_files_def Let_def split: prod.splits)
    then show ?thesis by (auto simp: write_loop_fst)
  qed
qed

section \<open>Claim C5: service names\<close>

text \<open>
  Claim C5. The compose service name derived from any record consists only of lowercase
  letters \<open>a\<close> to \<open>z\<close>, digits, underscores and hyphens; so does the service name
  of every entry that \<open>process_json_files\<close> returns.
\<close>

theorem service_name_dns_label_safe:
  "set (service_name (make_service_info ul record))
     \<subseteq> set (lit ''abcdefghijklmnopqrstuvwxyz0123456789_-'')
   \<and> (fst (process_json_files ul fmt input_dir w) = Inr service_info_list \<longrightarrow>
        (\<forall>info \<in> set service_info_list.
           set (service_name info) \<subseteq> set (lit ''abcdefghijklmnopqrstuvwxyz0123456789_-'')))"
proof -
  have one: "set (service_name (make_service_info ul r))
     \<subseteq> set (lit ''abcdefghijklmnopqrstuvwxyz0123456789_-'')" for r
    using sanitize_chars [of ul "safe_name r"]
    by (auto simp: make_service_info_def list_all_iff service_char_set)
  show ?thesis
  proof (intro conjI impI ballI)
    show "set (service_name (make_service_info ul record))
      \<subseteq> set (lit ''abcdefghijklmnopqrstuvwxyz0123456789_-'')"
      by (rule one)
  next
    fix info
    assume "fst (process_json_files ul fmt input_dir w) = Inr service_info_list"
      and "info \<in> set service_info_list"
    then obtain r where "info = make_service_info ul r"
      using process_json_files_services by fastforce
    then show "set (service_name info) \<subseteq> set (lit ''abcdefghijklmnopqrstuvwxyz0123456789_-'')"
      using one by simp
  qed
qed

text \<open>A run on one file with one record, and the service name it derives.\<close>

lemma process_one_record_services:
  "fst (process_json_files (\<lambda>s. s) (\<lambda>v. [])
      [(lit ''a.json'', Json (JObj [(lit ''name'', JStr (lit '' Node.JS'')),
                                    (lit ''namespace'', JStr (lit ''My Org''))]))]
      \<lparr>files = Map.empty, stdout = []\<rparr>)
   = Inr [\<lparr>service_name = lit ''my_org_node_js'', dockerfile = lit ''Dockerfile.My Org_Node_JS'',
           container_name = lit ''escape-target-My Org_Node_JS''\<rparr>]"
  by (simp add: process_json_files_def glob_json_def endswith_def load_item_def get_stripped_def
      strip_def isspace_def Let_def print_def write_loop_fst
      make_service_info_def sanitize_service_name_def safe_name_def replace_def
      lower_def is_ascii_def ascii_lower_def service_char_def lit_def split: prod.splits)

theorem service_name_dns_label_safe_witness:
  "fst (process_json_files (\<lambda>s. s) (\<lambda>v. [])
      [(lit ''a.json'', Json (JObj [(lit ''name'', JStr (lit '' Node.JS'')),
                                    (lit ''namespace'', JStr (lit ''My Org''))]))]
      \<lparr>files = Map.empty, stdout = []\<rparr>)
   = Inr [\<lparr>service_name = lit ''my_org_node_js'', dockerfile = lit ''Dockerfile.My Org_Node_JS'',
           container_name = lit ''escape-target-My Org_Node_JS''\<rparr>]
   \<and> set (lit ''my_org_node_js'') \<subseteq> set (lit ''abcdefghijklmnopqrstuvwxyz0123456789_-'')"
  using process_one_record_services
    service_name_dns_label_safe [of "\<lambda>s. s"
      "\<lparr>name = lit ''Node.JS'', namespace = lit ''My Org'', description = JStr [],
        source_file = lit ''a.json''\<rparr>" "\<lambda>v. []"
      "[(lit ''a.json'', Json (JObj [(lit ''name'', JStr (lit '' Node.JS'')),
                                    (lit ''namespace'', JStr (lit ''My Org''))]))]"
      "\<lparr>files = Map.empty, stdout = []\<rparr>"
      "[\<lparr>service_name = lit ''my_org_node_js'', dockerfile = lit ''Dockerfile.My Org_Node_JS'',
           container_name = lit ''escape-target-My Org_Node_JS''\<rparr>]"]
  by simp

section \<open>Claim C1: the classifier\<close>

lemma detect_distro_alpine: "detect_distro (lit ''alpine:latest'') = lit ''alpine''"
  by (simp add: detect_distro_def lit_def)

lemma detect_distro_debian: "detect_distro (lit ''debian:bookworm-slim'') = lit ''debian''"
  by (simp add: detect_distro_def lit_def)

lemma install_plan_alpine:
  assumes "guess_base_image ul nm = lit ''alpine:latest''"
  shows "install_plan ul nm =
    (lit ''alpine:latest'', lit ''alpine'',
     [lit ''socat'', lit ''curl'', lit ''wget'', lit ''netcat-openbsd'', lit ''strace'',
      lit ''procps'', lit ''iproute2'', lit ''lsof'', lit ''findutils'', lit ''bash'',
      lit ''less''],
     lit ''apk add --no-cache socat curl wget netcat-openbsd strace procps iproute2 lsof findutils bash less'')"
  unfolding install_plan_def assms Let_def detect_distro_alpine
  by (simp add: TOOLS_BY_DISTRO_def) (simp add: lit_def)

lemma install_plan_debian:
  assumes "guess_base_image ul nm = lit ''debian:bookworm-slim''"
  shows "install_plan ul nm =
    (lit ''debian:bookworm-slim'', lit ''debian'',
     [lit ''socat'', lit ''curl'', lit ''wget'', lit ''netcat-traditional'', lit ''strace'',
      lit ''procps'', lit ''iproute2'', lit ''lsof'', lit ''findutils'', lit ''bash'',
      lit ''less''],
     lit ''apt-get update && apt-get install -y --no-install-recommends socat curl wget netcat-traditional strace procps iproute2 lsof findutils bash less && rm -rf /var/lib/apt/lists/*'')"
  unfolding install_plan_def assms Let_def detect_distro_debian
  by (simp add: TOOLS_BY_DISTRO_def) (simp add: lit_def)

text \<open>
  Claim C1, as amended. The classifier lowercases the name (on an ASCII name, letter by
  letter) and searches it for substrings. A name whose lowercase form contains
  \<open>alpine\<close> gets the alpine family: base image, distro, tool list and \<open>apk\<close> install
  command. A name that does not contain \<open>alpine\<close> but contains \<open>ubuntu\<close> or
  \<open>debian\<close> gets the debian family with its \<open>apt-get\<close> install command. Any other name
  gets the alpine family. So \<open>alpine\<close> takes precedence over \<open>ubuntu\<close> and \<open>debian\<close>.
\<close>

theorem classifier_alpine_takes_precedence:
  "(is_ascii nm \<longrightarrow> lower ul nm = map ascii_lower nm)
   \<and> (sublist (lit ''alpine'') (lower ul nm) \<longrightarrow>
        install_plan ul nm =
          (lit ''alpine:latest'', lit ''alpine'',
           [lit ''socat'', lit ''curl'', lit ''wget'', lit ''netcat-openbsd'', lit ''strace'',
            lit ''procps'', lit ''iproute2'', lit ''lsof'', lit ''findutils'', lit ''bash'',
            lit ''less''],
           lit ''apk add --no-cache socat curl wget netcat-openbsd strace procps iproute2 lsof findutils bash less''))
   \<and> (\<not> sublist (lit ''alpine'') (lower ul nm)
        \<and> (sublist (lit ''ubuntu'') (lower ul nm) \<or> sublist (lit ''debian'') (lower ul nm)) \<longrightarrow>
        install_plan ul nm =
          (lit ''debian:bookworm-slim'', lit ''debian'',
           [lit ''socat'', lit ''curl'', lit ''wget'', lit ''netcat-traditional'', lit ''strace'',
            lit ''procps'', lit ''iproute2'', lit ''lsof'', lit ''findutils'', lit ''bash'',
            lit ''less''],
           lit ''apt-get update && apt-get install -y --no-install-recommends socat curl wget netcat-traditional strace procps iproute2 lsof findutils bash less && rm -rf /var/lib/apt/lists/*''))
   \<and> (\<not> sublist (lit ''alpine'') (lower ul nm)
        \<and> \<not> sublist (lit ''ubuntu'') (lower ul nm) \<and> \<not> sublist (lit ''debian'') (lower ul nm) \<longrightarrow>
        install_plan ul nm =
          (lit ''alpine:latest'', lit ''alpine'',
           [lit ''socat'', lit ''curl'', lit ''wget'', lit ''netcat-openbsd'', lit ''strace'',
            lit ''procps'', lit ''iproute2'', lit ''lsof'', lit ''findutils'', lit ''bash'',
            lit ''less''],
           lit ''apk add --no-cache socat curl wget netcat-openbsd strace procps iproute2 lsof findutils bash less''))"
proof (intro conjI impI)
  assume "is_ascii nm"
  then show "lower ul nm = map ascii_lower nm" by (simp add: lower_def)
next
  assume "sublist (lit ''alpine'') (lower ul nm)"
  then have "guess_base_image ul nm = lit ''alpine:latest''"
    by (simp add: guess_base_image_def py_in_sublist)
  then show "install_plan ul nm =
          (lit ''alpine:latest'', lit ''alpine'',
           [lit ''socat'', lit ''curl'', lit ''wget'', lit ''netcat-openbsd'', lit ''strace'',
            lit ''procps'', lit ''iproute2'', lit ''lsof'', lit ''findutils'', lit ''bash'',
            lit ''less''],
           lit ''apk add --no-cache socat curl wget netcat-openbsd strace procps iproute2 lsof findutils bash less'')"
    by (rule install_plan_alpine)
next
  assume "\<not> sublist (lit ''alpine'') (lower ul nm)
        \<and> (sublist (lit ''ubuntu'') (lower ul nm) \<or> sublist (lit ''debian'') (lower ul nm))"
  then have "guess_base_image ul nm = lit ''debian:bookworm-slim''"
    by (auto simp: guess_base_image_def py_in_sublist)
  then show "install_plan ul nm =
          (lit ''debian:bookworm-slim'', lit ''debian'',
           [lit ''socat'', lit ''curl'', lit ''wget'', lit ''netcat-traditional'', lit ''strace'',
            lit ''procps'', lit ''iproute2'', lit ''lsof'', lit ''findutils'', lit ''bash'',
            lit ''less''],
           lit ''apt-get update && apt-get install -y --no-install-recommends socat curl wget netcat-traditional strace procps iproute2 lsof findutils bash less && rm -rf /var/lib/apt/lists/*'')"
    by (rule install_plan_debian)
next
  assume "\<not> sublist (lit ''alpine'') (lower ul nm)
        \<and> \<not> sublist (lit ''ubuntu'') (lower ul nm) \<and> \<not> sublist (lit ''debian'') (lower ul nm)"
  then have "guess_base_image ul nm = lit ''alpine:latest''"
    by (simp add: guess_base_image_def py_in_sublist)
  then show "install_plan ul nm =
          (lit ''alpine:latest'', lit ''alpine'',
           [lit ''socat'', lit ''curl'', lit ''wget'', lit ''netcat-openbsd'', lit ''strace'',
            lit ''procps'', lit ''iproute2'', lit ''lsof'', lit ''findutils'', lit ''bash'',
            lit ''less''],
           lit ''apk add --no-cache socat curl wget netcat-openbsd strace procps iproute2 lsof findutils bash less'')"
    by (rule install_plan_alpine)
qed

text \<open>The name \<open>Ubuntu-Server\<close> is classified as debian.\<close>

lemma lower_ubuntu_server:
  "lower (\<lambda>s. s) (lit ''Ubuntu-Server'') = lit ''ubuntu-server''"
  by (simp add: lower_def is_ascii_def ascii_lower_def lit_def)

theorem classifier_alpine_takes_precedence_witness:
  "\<not> sublist (lit ''alpine'') (lower (\<lambda>s. s) (lit ''Ubuntu-Server''))
   \<and> sublist (lit ''ubuntu'') (lower (\<lambda>s. s) (lit ''Ubuntu-Server''))
   \<and> install_plan (\<lambda>s. s) (lit ''Ubuntu-Server'') =
          (lit ''debian:bookworm-slim'', lit ''debian'',
           [lit ''socat'', lit ''curl'', lit ''wget'', lit ''netcat-traditional'', lit ''strace'',
            lit ''procps'', lit ''iproute2'', lit ''lsof'', lit ''findutils'', lit ''bash'',
            lit ''less''],
           lit ''apt-get update && apt-get install -y --no-install-recommends socat curl wget netcat-traditional strace procps iproute2 lsof findutils bash less && rm -rf /var/lib/apt/lists/*'')"
proof -
  have a: "\<not> sublist (lit ''alpine'') (lower (\<lambda>s. s) (lit ''Ubuntu-Server''))"
    unfolding lower_ubuntu_server py_in_sublist [symmetric] by (simp add: lit_def)
  have u: "sublist (lit ''ubuntu'') (lower (\<lambda>s. s) (lit ''Ubuntu-Server''))"
    unfolding lower_ubuntu_server py_in_sublist [symmetric] by (simp add: lit_def)
  show ?thesis
    using a u classifier_alpine_takes_precedence [of "lit ''Ubuntu-Server''" "\<lambda>s. s"] by blast
qed

text \<open>
  The claim as stated fails on the name \<open>ubuntu-alpine\<close>: it contains \<open>ubuntu\<close>, and
  the base image is \<open>alpine:latest\<close>, not the debian one.
\<close>

theorem ubuntu_with_alpine_counterexample:
  "sublist (lit ''ubuntu'') (lower (\<lambda>s. s) (lit ''ubuntu-alpine''))
   \<and> fst (install_plan (\<lambda>s. s) (lit ''ubuntu-alpine'')) = lit ''alpine:latest''
   \<and> fst (install_plan (\<lambda>s. s) (lit ''ubuntu-alpine'')) \<noteq> lit ''debian:bookworm-slim''"
proof -
  have l: "lower (\<lambda>s. s) (lit ''ubuntu-alpine'') = lit ''ubuntu-alpine''"
    by (simp add: lower_def is_ascii_def ascii_lower_def lit_def)
  have u: "sublist (lit ''ubuntu'') (lower (\<lambda>s. s) (lit ''ubuntu-alpine''))"
    unfolding l py_in_sublist [symmetric] by (simp add: lit_def)
  have g: "guess_base_image (\<lambda>s. s) (lit ''ubuntu-alpine'') = lit ''alpine:latest''"
    unfolding guess_base_image_def l Let_def by (simp add: lit_def)
  have "lit ''alpine:latest'' \<noteq> lit ''debian:bookworm-slim''" by (simp add: lit_def)
  with u install_plan_alpine [OF g] show ?thesis by simp
qed

section \<open>Claim C2: deduplication\<close>




section \<open>Claim C3: Dockerfile names\<close>



section \<open>Claims C7 and C10: items with missing or ill-typed fields\<close>

lemma load_item_spec:
  assumes "string_fields item"
  shows "load_item f item =
    Inr (if spec_item_dropped item then None else Some (spec_record f item))"
proof (cases item)
  case (JObj d)
  with assms show ?thesis
    by (auto simp: load_item_def get_stripped_def spec_item_dropped_def spec_record_def
        spec_field_missing_def spec_trimmed_def string_fields_def is_string_or_absent_def
        strip_def
        split: option.splits json.splits)
qed (simp_all add: load_item_def spec_item_dropped_def)

lemma load_items_spec:
  "list_all string_fields items \<Longrightarrow>
     load_items f items acc =
       Inr (acc @ map (spec_record f) (filter (\<lambda>i. \<not> spec_item_dropped i) items))"
  by (induction items arbitrary: acc) (simp_all add: load_item_spec)

lemma spec_record_nonempty:
  "string_fields item \<Longrightarrow> \<not> spec_item_dropped item \<Longrightarrow>
     name (spec_record f item) \<noteq> [] \<and> namespace (spec_record f item) \<noteq> []"
  by (cases item)
     (auto simp: spec_item_dropped_def spec_record_def spec_field_missing_def spec_trimmed_def
        string_fields_def is_string_or_absent_def
        split: option.splits json.splits)

text \<open>
  Claim C7, as amended. Let the name and the namespace of every dictionary among the
  items be strings when they are present. Then an item that is not a dictionary, or
  whose name or namespace is absent or empty after trimming, is dropped; every other
  item is kept as a record with its trimmed, non-empty name and namespace; and the loop
  over the items goes through all of them and appends the kept records in order.
\<close>

theorem load_items_drops_missing_fields:
  "list_all string_fields items \<longrightarrow>
     (\<forall>item \<in> set items.
        load_item f item =
          Inr (if spec_item_dropped item then None else Some (spec_record f item))
        \<and> (\<not> spec_item_dropped item \<longrightarrow>
             name (spec_record f item) \<noteq> [] \<and> namespace (spec_record f item) \<noteq> []))
     \<and> load_items f items acc =
         Inr (acc @ map (spec_record f) (filter (\<lambda>i. \<not> spec_item_dropped i) items))"
  by (auto simp: load_items_spec load_item_spec list_all_iff spec_record_nonempty)

lemma load_items_example:
  "load_items (lit ''a.json'')
     [JObj [(lit ''name'', JStr (lit '' curl '')), (lit ''namespace'', JStr (lit ''library''))],
      JInt 3,
      JObj [(lit ''name'', JStr (lit ''  '')), (lit ''namespace'', JStr (lit ''library''))],
      JObj [(lit ''name'', JStr (lit ''nginx''))]] []
   = Inr [\<lparr>name = lit ''curl'', namespace = lit ''library'', description = JStr [],
           source_file = lit ''a.json''\<rparr>]"
  by (simp add: load_item_def get_stripped_def strip_def isspace_def lit_def)

lemma string_fields_example:
  "list_all string_fields
     [JObj [(lit ''name'', JStr (lit '' curl '')), (lit ''namespace'', JStr (lit ''library''))],
      JInt 3,
      JObj [(lit ''name'', JStr (lit ''  '')), (lit ''namespace'', JStr (lit ''library''))],
      JObj [(lit ''name'', JStr (lit ''nginx''))]]"
  by (simp add: string_fields_def is_string_or_absent_def lit_def)

theorem load_items_drops_missing_fields_witness:
  "list_all string_fields
     [JObj [(lit ''name'', JStr (lit '' curl '')), (lit ''namespace'', JStr (lit ''library''))],
      JInt 3,
      JObj [(lit ''name'', JStr (lit ''  '')), (lit ''namespace'', JStr (lit ''library''))],
      JObj [(lit ''name'', JStr (lit ''nginx''))]]
   \<and> Inr [\<lparr>name = lit ''curl'', namespace = lit ''library'', description = JStr [],
           source_file = lit ''a.json''\<rparr>]
     = (Inr (map (spec_record (lit ''a.json'')) (filter (\<lambda>i. \<not> spec_item_dropped i)
         [JObj [(lit ''name'', JStr (lit '' curl '')), (lit ''namespace'', JStr (lit ''library''))],
          JInt 3,
          JObj [(lit ''name'', JStr (lit ''  '')), (lit ''namespace'', JStr (lit ''library''))],
          JObj [(lit ''name'', JStr (lit ''nginx''))]]))
        :: error + metadata_record list)"
proof -
  note t = load_items_drops_missing_fields [of
      "[JObj [(lit ''name'', JStr (lit '' curl '')), (lit ''namespace'', JStr (lit ''library''))],
        JInt 3,
        JObj [(lit ''name'', JStr (lit ''  '')), (lit ''namespace'', JStr (lit ''library''))],
        JObj [(lit ''name'', JStr (lit ''nginx''))]]" "lit ''a.json''" "[]"]
  note eq = conjunct2 [OF mp [OF t string_fields_example], unfolded load_items_example append_Nil]
  show ?thesis
    by (rule conjI [OF string_fields_example eq])
qed

text \<open>
  The claim as stated fails on an item without a name whose namespace is the number 5:
  its name is absent, and the loop raises instead of dropping it and going on to the
  next item.
\<close>

theorem missing_name_number_namespace_counterexample:
  "map_of [(lit ''namespace'', JInt 5)] (lit ''name'') = None
   \<and> load_items (lit ''a.json'')
       [JObj [(lit ''namespace'', JInt 5)],
        JObj [(lit ''name'', JStr (lit ''curl'')), (lit ''namespace'', JStr (lit ''library''))]] []
     = Inl AttributeError"
  by (simp add: load_item_def get_stripped_def strip_def lit_def)

text \<open>
  Claim C10. If the name of a dictionary item is present and not a string, loading the
  item raises \<open>AttributeError\<close>; so it does if the name is a string or absent and the
  namespace is present and not a string. The exception is not caught: when it is
  raised for an item of a file, \<open>main\<close> ends with it after the line announcing the
  file, and nothing is written.
\<close>

theorem load_item_raises_on_non_string:
  "(map_of d (lit ''name'') = Some v \<and> (\<forall>s. v \<noteq> JStr s) \<longrightarrow>
      load_item f (JObj d) = Inl AttributeError)
   \<and> (is_string_or_absent d (lit ''name'') \<and> map_of d (lit ''namespace'') = Some v
        \<and> (\<forall>s. v \<noteq> JStr s) \<longrightarrow>
      load_item f (JObj d) = Inl AttributeError)
   \<and> (load_item f (JObj d) = Inl AttributeError \<and> endswith f (lit ''.json'') \<longrightarrow>
      main ul fmt (Some [(f, Json (JObj d))]) w
        = (Inl AttributeError, print (ProcessingFile f) w))
   \<and> (load_item f item = Inl AttributeError \<and> load_items f pre [] = Inr acc
        \<and> endswith f (lit ''.json'') \<longrightarrow>
      main ul fmt (Some [(f, Json (JArr (pre @ item # post)))]) w
        = (Inl AttributeError, print (ProcessingFile f) w))"
proof (intro conjI impI)
  assume "map_of d (lit ''name'') = Some v \<and> (\<forall>s. v \<noteq> JStr s)"
  then show "load_item f (JObj d) = Inl AttributeError"
    by (cases v) (simp_all add: load_item_def get_stripped_def)
next
  assume a: "is_string_or_absent d (lit ''name'') \<and> map_of d (lit ''namespace'') = Some v
        \<and> (\<forall>s. v \<noteq> JStr s)"
  then obtain nm where "get_stripped d (lit ''name'') = Inr nm"
    by (auto simp: is_string_or_absent_def get_stripped_def split: option.splits json.splits)
  moreover from a have "get_stripped d (lit ''namespace'') = Inl AttributeError"
    by (cases v) (simp_all add: get_stripped_def)
  ultimately show "load_item f (JObj d) = Inl AttributeError"
    by (simp add: load_item_def)
next
  assume "load_item f (JObj d) = Inl AttributeError \<and> endswith f (lit ''.json'')"
  then show "main ul fmt (Some [(f, Json (JObj d))]) w
        = (Inl AttributeError, print (ProcessingFile f) w)"
    by (simp add: main_def process_json_files_def glob_json_def Let_def)
next
  assume a: "load_item f item = Inl AttributeError \<and> load_items f pre [] = Inr acc
        \<and> endswith f (lit ''.json'')"
  then have "load_items f (pre @ item # post) [] = Inl AttributeError"
    by (simp add: load_items_append)
  with a show "main ul fmt (Some [(f, Json (JArr (pre @ item # post)))]) w
        = (Inl AttributeError, print (ProcessingFile f) w)"
    by (simp add: main_def process_json_files_def glob_json_def Let_def)
qed

theorem load_item_raises_on_non_string_witness:
  "map_of [(lit ''name'', JInt 7), (lit ''namespace'', JStr (lit ''library''))] (lit ''name'')
     = Some (JInt 7)
   \<and> endswith (lit ''a.json'') (lit ''.json'')
   \<and> main (\<lambda>s. s) (\<lambda>v. [])
       (Some [(lit ''a.json'',
               Json (JObj [(lit ''name'', JInt 7), (lit ''namespace'', JStr (lit ''library''))]))])
       \<lparr>files = Map.empty, stdout = []\<rparr>
     = (Inl AttributeError, \<lparr>files = Map.empty, stdout = [ProcessingFile (lit ''a.json'')]\<rparr>)"
proof -
  have m: "map_of [(lit ''name'', JInt 7), (lit ''namespace'', JStr (lit ''library''))] (lit ''name'')
     = Some (JInt 7)"
    by simp
  have e: "endswith (lit ''a.json'') (lit ''.json'')"
    by (simp add: endswith_def lit_def)
  have n: "\<forall>s. JInt 7 \<noteq> JStr s" by simp
  note t = load_item_raises_on_non_string
    [of "[(lit ''name'', JInt 7), (lit ''namespace'', JStr (lit ''library''))]" "JInt 7"
        "lit ''a.json''" "\<lambda>s. s" "\<lambda>v. []" "\<lparr>files = Map.empty, stdout = []\<rparr>"]
  from t m n have "load_item (lit ''a.json'')
      (JObj [(lit ''name'', JInt 7), (lit ''namespace'', JStr (lit ''library''))])
    = Inl AttributeError" by blast
  with t e have "main (\<lambda>s. s) (\<lambda>v. [])
       (Some [(lit ''a.json'',
               Json (JObj [(lit ''name'', JInt 7), (lit ''namespace'', JStr (lit ''library''))]))])
       \<lparr>files = Map.empty, stdout = []\<rparr>
     = (Inl AttributeError, print (ProcessingFile (lit ''a.json'')) \<lparr>files = Map.empty, stdout = []\<rparr>)"
    by blast
  with m e show ?thesis by (simp add: print_def)
qed

section \<open>Claim C8: no JSON file\<close>

text \<open>
  Claim C8. When no entry of the input directory matches \<open>*.json\<close>,
  \<open>process_json_files\<close> prints that it found no such file and returns the empty list;
  \<open>main\<close> then prints the closing message that no service was generated and returns,
  and no file is written: the compose file is left as it was.
\<close>

theorem no_json_files_no_compose:
  "glob_json input_dir = [] \<longrightarrow>
     process_json_files ul fmt input_dir w = (Inr [], print NoJsonFilesFound w)
     \<and> main ul fmt (Some input_dir) w
         = (Inr (), print NoServiceGenerated (print NoJsonFilesFound w))
     \<and> files (snd (main ul fmt (Some input_dir) w)) = files w
     \<and> files (snd (main ul fmt (Some input_dir) w)) compose_path = files w compose_path"
  by (simp add: process_json_files_def main_def print_def)

theorem no_json_files_no_compose_witness:
  "glob_json [(lit ''notes.txt'', NotJson)] = []
   \<and> main (\<lambda>s. s) (\<lambda>v. []) (Some [(lit ''notes.txt'', NotJson)]) \<lparr>files = Map.empty, stdout = []\<rparr>
       = (Inr (), \<lparr>files = Map.empty, stdout = [NoJsonFilesFound, NoServiceGenerated]\<rparr>)
   \<and> files (snd (main (\<lambda>s. s) (\<lambda>v. []) (Some [(lit ''notes.txt'', NotJson)])
        \<lparr>files = Map.empty, stdout = []\<rparr>)) compose_path = None"
proof -
  have g: "glob_json [(lit ''notes.txt'', NotJson)] = []"
    by (simp add: glob_json_def endswith_def lit_def)
  note t = mp [OF no_json_files_no_compose
    [of "[(lit ''notes.txt'', NotJson)]" "\<lambda>s. s" "\<lambda>v. []" "\<lparr>files = Map.empty, stdout = []\<rparr>"] g]
  from g t show ?thesis by (simp add: print_def)
qed

section \<open>Claim C6: missing directory and unparsable files\<close>





text \<open>A directory with an unparsable file and a good one: the good one is loaded.\<close>

lemma load_files_example:
  "load_files
     [(lit ''a.json'', NotJson),
      (lit ''b.json'', Json (JObj [(lit ''name'', JStr (lit ''curl'')),
                                   (lit ''namespace'', JStr (lit ''library''))]))]
     [] \<lparr>files = Map.empty, stdout = []\<rparr>
   = (Inr [\<lparr>name = lit ''curl'', namespace = lit ''library'', description = JStr [],
             source_file = lit ''b.json''\<rparr>],
      \<lparr>files = Map.empty,
       stdout = [ProcessingFile (lit ''a.json''), SkippingInvalidJson (lit ''a.json''),
                 ProcessingFile (lit ''b.json'')]\<rparr>)"
  by (simp add: Let_def print_def load_item_def get_stripped_def strip_def isspace_def lit_def)


section \<open>Claim C4: the example of the specification\<close>

lemma generate_dockerfile_library_curl:
  \<open>split_lines (generate_dockerfile ul fmt
      \<lparr>name = lit ''curl'', namespace = lit ''library'', description = JStr (lit ''test''),
       source_file = lit ''metadata.json''\<rparr>) =
    [lit ''# Escape target container (for research only)'',
     lit ''# Based on: library/curl'',
     lit ''# Description: test'',
     [],
     lit ''FROM alpine:latest'',
     [],
     lit ''LABEL org.security.dataset="container-escape-target"'',
     lit ''LABEL source.image="library/curl"'',
     [],
     lit ''RUN apk add --no-cache socat curl wget netcat-openbsd strace procps iproute2 lsof findutils bash less'',
     [],
     lit ''# Add non-root user (but root remains default)'',
     lit ''RUN adduser -D -s /bin/sh attacker 2>/dev/null || true'',
     [],
     lit ''EXPOSE 8080'',
     [],
     lit ''CMD ["sh", "-c", "while true; do echo 'HTTP/1.1 200 OK'' @ backslash @ lit ''r''
       @ backslash @ lit ''n'' @ backslash @ lit ''r'' @ backslash
       @ lit ''nEscape Target Active' | nc -l -p 8080 -s 0.0.0.0 2>/dev/null; done"]'']\<close>
proof -
  have g: "guess_base_image ul (lit ''curl'') = lit ''alpine:latest''"
    by (simp add: guess_base_image_def lower_def is_ascii_def ascii_lower_def lit_def)
  note ip = install_plan_alpine [OF g]
  show ?thesis
    by (simp add: generate_dockerfile_def Let_def ip format_value_def)
       (simp add: nl_def backslash_def strip_def isspace_def lit_def)
qed

lemma process_library_curl:
  "process_json_files ul fmt
     [(lit ''metadata.json'',
       Json (JObj [(lit ''name'', JStr (lit ''curl'')), (lit ''namespace'', JStr (lit ''library'')),
                   (lit ''description'', JStr (lit ''test''))]))]
     \<lparr>files = Map.empty, stdout = []\<rparr>
   = (Inr [\<lparr>service_name = lit ''library_curl'', dockerfile = lit ''Dockerfile.library_curl'',
             container_name = lit ''escape-target-library_curl''\<rparr>],
      \<lparr>files = [lit ''Dockerfile.library_curl'' \<mapsto> generate_dockerfile ul fmt
                  \<lparr>name = lit ''curl'', namespace = lit ''library'',
                   description = JStr (lit ''test''), source_file = lit ''metadata.json''\<rparr>],
       stdout = [ProcessingFile (lit ''metadata.json''),
                 Generated (lit ''Dockerfile.library_curl'')]\<rparr>)"
proof -
  have l: "load_item (lit ''metadata.json'')
      (JObj [(lit ''name'', JStr (lit ''curl'')), (lit ''namespace'', JStr (lit ''library'')),
             (lit ''description'', JStr (lit ''test''))])
    = Inr (Some \<lparr>name = lit ''curl'', namespace = lit ''library'',
                 description = JStr (lit ''test''), source_file = lit ''metadata.json''\<rparr>)"
    by (simp add: load_item_def get_stripped_def strip_def isspace_def lit_def)
  have g: "glob_json [(lit ''metadata.json'', c)] = [(lit ''metadata.json'', c)]" for c
    by (simp add: glob_json_def endswith_def lit_def)
  have s: "safe_name \<lparr>name = lit ''curl'', namespace = lit ''library'',
                 description = JStr (lit ''test''), source_file = lit ''metadata.json''\<rparr>
           = lit ''library_curl''"
    by (simp add: safe_name_def replace_def lit_def)
  have n: "sanitize_service_name ul (lit ''library_curl'') = lit ''library_curl''"
    by (simp add: sanitize_service_name_def lower_def is_ascii_def ascii_lower_def
        service_char_def lit_def)
  have a: "lit ''Dockerfile.'' @ lit ''library_curl'' = lit ''Dockerfile.library_curl''"
    "lit ''escape-target-'' @ lit ''library_curl'' = lit ''escape-target-library_curl''"
    by (simp_all add: lit_def)
  show ?thesis
    by (simp add: process_json_files_def g l Let_def make_service_info_def s n a
        print_def write_file_def)
qed


lemma compose_library_curl:
  \<open>split_lines (compose_loop
      [\<lparr>service_name = lit ''library_curl'', dockerfile = lit ''Dockerfile.library_curl'',
         container_name = lit ''escape-target-library_curl''\<rparr>] (lit ''services:'' @ nl)) =
    [lit ''services:'',
     lit ''  library_curl:'',
     lit ''    build:'',
     lit ''      context: .'',
     lit ''      dockerfile: Dockerfile.library_curl'',
     lit ''    container_name: escape-target-library_curl'',
     lit ''    privileged: false'',
     lit ''    cap_add:'',
     lit ''      - SYS_PTRACE'',
     lit ''      - DAC_READ_SEARCH'',
     lit ''    security_opt:'',
     lit ''      - apparmor:unconfined'',
     lit ''      - seccomp:unconfined'',
     lit ''    volumes:'',
     lit ''      - /:/host:ro'',
     lit ''      - /var/run/docker.sock:/var/run/docker.sock:ro'',
     lit ''    network_mode: bridge'',
     lit ''    ports:'',
     lit ''      - "8080"'',
     lit ''    restart: unless-stopped'',
     lit ''    stdin_open: true'',
     lit ''    tty: true'',
     []]\<close>
  by (simp add: service_block_def nl_def lit_def)

text \<open>
  Claim C4. On a directory whose only file holds the record of name \<open>curl\<close>, namespace
  \<open>library\<close> and description \<open>test\<close>, \<open>main\<close> returns normally and writes two files.
  The Dockerfile is named \<open>Dockerfile.library_curl\<close>; its fifth line is
  \<open>FROM alpine:latest\<close> and its install line is the \<open>RUN\<close> instruction whose command
  begins with \<open>apk add --no-cache\<close>. The compose document has the service block named
  \<open>library_curl\<close>, whose \<open>dockerfile\<close> field is \<open>Dockerfile.library_curl\<close>.
\<close>

theorem example_library_curl:
  \<open>fst (main ul fmt
      (Some [(lit ''metadata.json'',
        Json (JObj [(lit ''name'', JStr (lit ''curl'')), (lit ''namespace'', JStr (lit ''library'')),
                    (lit ''description'', JStr (lit ''test''))]))])
      \<lparr>files = Map.empty, stdout = []\<rparr>) = Inr ()
   \<and> dom (files (snd (main ul fmt
      (Some [(lit ''metadata.json'',
        Json (JObj [(lit ''name'', JStr (lit ''curl'')), (lit ''namespace'', JStr (lit ''library'')),
                    (lit ''description'', JStr (lit ''test''))]))])
      \<lparr>files = Map.empty, stdout = []\<rparr>)))
       = {lit ''Dockerfile.library_curl'', lit ''docker-compose.escape-targets.yml''}
   \<and> map_option split_lines (files (snd (main ul fmt
      (Some [(lit ''metadata.json'',
        Json (JObj [(lit ''name'', JStr (lit ''curl'')), (lit ''namespace'', JStr (lit ''library'')),
                    (lit ''description'', JStr (lit ''test''))]))])
      \<lparr>files = Map.empty, stdout = []\<rparr>)) (lit ''Dockerfile.library_curl'')) =
     Some
      [lit ''# Escape target container (for research only)'',
       lit ''# Based on: library/curl'',
       lit ''# Description: test'',
       [],
       lit ''FROM alpine:latest'',
       [],
       lit ''LABEL org.security.dataset="container-escape-target"'',
       lit ''LABEL source.image="library/curl"'',
       [],
       lit ''RUN apk add --no-cache socat curl wget netcat-openbsd strace procps iproute2 lsof findutils bash less'',
       [],
       lit ''# Add non-root user (but root remains default)'',
       lit ''RUN adduser -D -s /bin/sh attacker 2>/dev/null || true'',
       [],
       lit ''EXPOSE 8080'',
       [],
       lit ''CMD ["sh", "-c", "while true; do echo 'HTTP/1.1 200 OK'' @ backslash @ lit ''r''
         @ backslash @ lit ''n'' @ backslash @ lit ''r'' @ backslash
         @ lit ''nEscape Target Active' | nc -l -p 8080 -s 0.0.0.0 2>/dev/null; done"]'']
   \<and> map_option split_lines (files (snd (main ul fmt
      (Some [(lit ''metadata.json'',
        Json (JObj [(lit ''name'', JStr (lit ''curl'')), (lit ''namespace'', JStr (lit ''library'')),
                    (lit ''description'', JStr (lit ''test''))]))])
      \<lparr>files = Map.empty, stdout = []\<rparr>)) (lit ''docker-compose.escape-targets.yml'')) =
     Some
      [lit ''services:'',
       lit ''  library_curl:'',
       lit ''    build:'',
       lit ''      context: .'',
       lit ''      dockerfile: Dockerfile.library_curl'',
       lit ''    container_name: escape-target-library_curl'',
       lit ''    privileged: false'',
       lit ''    cap_add:'',
       lit ''      - SYS_PTRACE'',
       lit ''      - DAC_READ_SEARCH'',
       lit ''    security_opt:'',
       lit ''      - apparmor:unconfined'',
       lit ''      - seccomp:unconfined'',
       lit ''    volumes:'',
       lit ''      - /:/host:ro'',
       lit ''      - /var/run/docker.sock:/var/run/docker.sock:ro'',
       lit ''    network_mode: bridge'',
       lit ''    ports:'',
       lit ''      - "8080"'',
       lit ''    restart: unless-stopped'',
       lit ''    stdin_open: true'',
       lit ''    tty: true'',
       []]\<close>
proof -
  have ne: "lit ''Dockerfile.library_curl'' \<noteq> lit ''docker-compose.escape-targets.yml''"
    by (simp add: lit_def)
  have m: "main ul fmt
      (Some [(lit ''metadata.json'',
        Json (JObj [(lit ''name'', JStr (lit ''curl'')), (lit ''namespace'', JStr (lit ''library'')),
                    (lit ''description'', JStr (lit ''test''))]))])
      \<lparr>files = Map.empty, stdout = []\<rparr>
    = (Inr (),
       \<lparr>files = [lit ''Dockerfile.library_curl'' \<mapsto> generate_dockerfile ul fmt
                  \<lparr>name = lit ''curl'', namespace = lit ''library'',
                   description = JStr (lit ''test''), source_file = lit ''metadata.json''\<rparr>,
                 lit ''docker-compose.escape-targets.yml'' \<mapsto> compose_loop
                   [\<lparr>service_name = lit ''library_curl'', dockerfile = lit ''Dockerfile.library_curl'',
                      container_name = lit ''escape-target-library_curl''\<rparr>]
                   (lit ''services:'' @ nl)],
        stdout = [ProcessingFile (lit ''metadata.json''),
                  Generated (lit ''Dockerfile.library_curl''),
                  ComposeGenerated (lit ''docker-compose.escape-targets.yml''),
                  Summary 1]\<rparr>)"
    unfolding main_def option.case process_library_curl
    by (simp add: generate_docker_compose_def compose_path_def Let_def print_def write_file_def
        del: compose_loop.simps)
  show ?thesis
    unfolding m fst_conv snd_conv
    using ne generate_dockerfile_library_curl [of ul fmt] compose_library_curl
    by (simp del: compose_loop.simps split_lines.simps) blast
qed

section \<open>Claim C9: colliding sanitized names\<close>

lemma process_colliding:
  "process_json_files ul fmt
     [(lit ''metadata.json'',
       Json (JArr
         [JObj [(lit ''name'', JStr (lit ''web'')), (lit ''namespace'', JStr (lit ''acme.io''))],
          JObj [(lit ''name'', JStr (lit ''web'')), (lit ''namespace'', JStr (lit ''acme_io''))]]))]
     \<lparr>files = Map.empty, stdout = []\<rparr>
   = (Inr [\<lparr>service_name = lit ''acme_io_web'', dockerfile = lit ''Dockerfile.acme_io_web'',
             container_name = lit ''escape-target-acme_io_web''\<rparr>,
           \<lparr>service_name = lit ''acme_io_web'', dockerfile = lit ''Dockerfile.acme_io_web'',
             container_name = lit ''escape-target-acme_io_web''\<rparr>],
      \<lparr>files = [lit ''Dockerfile.acme_io_web'' \<mapsto> generate_dockerfile ul fmt
                  \<lparr>name = lit ''web'', namespace = lit ''acme_io'',
                   description = JStr [], source_file = lit ''metadata.json''\<rparr>],
       stdout = [ProcessingFile (lit ''metadata.json''),
                 Generated (lit ''Dockerfile.acme_io_web''),
                 Generated (lit ''Dockerfile.acme_io_web'')]\<rparr>)"
proof -
  have l: "load_items (lit ''metadata.json'')
      [JObj [(lit ''name'', JStr (lit ''web'')), (lit ''namespace'', JStr (lit ''acme.io''))],
       JObj [(lit ''name'', JStr (lit ''web'')), (lit ''namespace'', JStr (lit ''acme_io''))]] []
    = Inr [\<lparr>name = lit ''web'', namespace = lit ''acme.io'',
             description = JStr [], source_file = lit ''metadata.json''\<rparr>,
           \<lparr>name = lit ''web'', namespace = lit ''acme_io'',
             description = JStr [], source_file = lit ''metadata.json''\<rparr>]"
    by (simp add: load_item_def get_stripped_def strip_def isspace_def lit_def)
  have u: "unique_loop
          [\<lparr>name = lit ''web'', namespace = lit ''acme.io'',
             description = JStr [], source_file = lit ''metadata.json''\<rparr>,
           \<lparr>name = lit ''web'', namespace = lit ''acme_io'',
             description = JStr [], source_file = lit ''metadata.json''\<rparr>] {} []
       = [\<lparr>name = lit ''web'', namespace = lit ''acme.io'',
             description = JStr [], source_file = lit ''metadata.json''\<rparr>,
           \<lparr>name = lit ''web'', namespace = lit ''acme_io'',
             description = JStr [], source_file = lit ''metadata.json''\<rparr>]"
    by (simp add: Let_def lit_def)
  have g: "glob_json [(lit ''metadata.json'', c)] = [(lit ''metadata.json'', c)]" for c
    by (simp add: glob_json_def endswith_def lit_def)
  have s: "safe_name \<lparr>name = lit ''web'', namespace = lit ''acme.io'',
                 description = JStr [], source_file = lit ''metadata.json''\<rparr>
           = lit ''acme_io_web''"
      "safe_name \<lparr>name = lit ''web'', namespace = lit ''acme_io'',
                 description = JStr [], source_file = lit ''metadata.json''\<rparr>
           = lit ''acme_io_web''"
    by (simp_all add: safe_name_def replace_def lit_def)
  have n: "sanitize_service_name ul (lit ''acme_io_web'') = lit ''acme_io_web''"
    by (simp add: sanitize_service_name_def lower_def is_ascii_def ascii_lower_def
        service_char_def lit_def)
  have a: "lit ''Dockerfile.'' @ lit ''acme_io_web'' = lit ''Dockerfile.acme_io_web''"
    "lit ''escape-target-'' @ lit ''acme_io_web'' = lit ''escape-target-acme_io_web''"
    by (simp_all add: lit_def)
  show ?thesis
    by (simp add: process_json_files_def g l u Let_def make_service_info_def s n a
        print_def write_file_def del: load_items.simps unique_loop.simps)
qed

lemma dockerfiles_differ:
  "generate_dockerfile ul fmt
      \<lparr>name = lit ''web'', namespace = lit ''acme.io'',
       description = JStr [], source_file = lit ''metadata.json''\<rparr>
   \<noteq> generate_dockerfile ul fmt
      \<lparr>name = lit ''web'', namespace = lit ''acme_io'',
       description = JStr [], source_file = lit ''metadata.json''\<rparr>"
proof -
  have g: "guess_base_image ul (lit ''web'') = lit ''alpine:latest''"
    by (simp add: guess_base_image_def lower_def is_ascii_def ascii_lower_def lit_def)
  note ip = install_plan_alpine [OF g]
  show ?thesis
    by (simp add: generate_dockerfile_def Let_def ip format_value_def)
       (simp add: nl_def backslash_def strip_def isspace_def lit_def)
qed

text \<open>
  Claim C9. The records of name \<open>web\<close> in the namespaces \<open>acme.io\<close> and \<open>acme_io\<close> have
  different keys, so both survive the deduplication, and the same sanitized key
  \<open>acme_io_web\<close>. A run on a file holding both writes \<open>Dockerfile.acme_io_web\<close> twice;
  the file ends with the Dockerfile of the second record, which differs from that of
  the first; and the two service entries returned have the same service name.
\<close>

theorem sanitized_name_not_injective:
  "key_of \<lparr>name = lit ''web'', namespace = lit ''acme.io'',
           description = JStr [], source_file = lit ''metadata.json''\<rparr>
     \<noteq> key_of \<lparr>name = lit ''web'', namespace = lit ''acme_io'',
           description = JStr [], source_file = lit ''metadata.json''\<rparr>
   \<and> unique_loop
        [\<lparr>name = lit ''web'', namespace = lit ''acme.io'',
           description = JStr [], source_file = lit ''metadata.json''\<rparr>,
         \<lparr>name = lit ''web'', namespace = lit ''acme_io'',
           description = JStr [], source_file = lit ''metadata.json''\<rparr>] {} []
      = [\<lparr>name = lit ''web'', namespace = lit ''acme.io'',
           description = JStr [], source_file = lit ''metadata.json''\<rparr>,
         \<lparr>name = lit ''web'', namespace = lit ''acme_io'',
           description = JStr [], source_file = lit ''metadata.json''\<rparr>]
   \<and> safe_name \<lparr>name = lit ''web'', namespace = lit ''acme.io'',
           description = JStr [], source_file = lit ''metadata.json''\<rparr>
      = safe_name \<lparr>name = lit ''web'', namespace = lit ''acme_io'',
           description = JStr [], source_file = lit ''metadata.json''\<rparr>
   \<and> process_json_files ul fmt
       [(lit ''metadata.json'',
         Json (JArr
           [JObj [(lit ''name'', JStr (lit ''web'')), (lit ''namespace'', JStr (lit ''acme.io''))],
            JObj [(lit ''name'', JStr (lit ''web'')), (lit ''namespace'', JStr (lit ''acme_io''))]]))]
       \<lparr>files = Map.empty, stdout = []\<rparr>
     = (Inr [\<lparr>service_name = lit ''acme_io_web'', dockerfile = lit ''Dockerfile.acme_io_web'',
               container_name = lit ''escape-target-acme_io_web''\<rparr>,
             \<lparr>service_name = lit ''acme_io_web'', dockerfile = lit ''Dockerfile.acme_io_web'',
               container_name = lit ''escape-target-acme_io_web''\<rparr>],
        \<lparr>files = [lit ''Dockerfile.acme_io_web'' \<mapsto> generate_dockerfile ul fmt
                    \<lparr>name = lit ''web'', namespace = lit ''acme_io'',
                     description = JStr [], source_file = lit ''metadata.json''\<rparr>],
         stdout = [ProcessingFile (lit ''metadata.json''),
                   Generated (lit ''Dockerfile.acme_io_web''),
                   Generated (lit ''Dockerfile.acme_io_web'')]\<rparr>)
   \<and> generate_dockerfile ul fmt
        \<lparr>name = lit ''web'', namespace = lit ''acme.io'',
         description = JStr [], source_file = lit ''metadata.json''\<rparr>
     \<noteq> generate_dockerfile ul fmt
        \<lparr>name = lit ''web'', namespace = lit ''acme_io'',
         description = JStr [], source_file = lit ''metadata.json''\<rparr>"
proof (intro conjI)
  show "key_of \<lparr>name = lit ''web'', namespace = lit ''acme.io'',
           description = JStr [], source_file = lit ''metadata.json''\<rparr>
     \<noteq> key_of \<lparr>name = lit ''web'', namespace = lit ''acme_io'',
           description = JStr [], source_file = lit ''metadata.json''\<rparr>"
    by (simp add: lit_def)
  show "unique_loop
        [\<lparr>name = lit ''web'', namespace = lit ''acme.io'',
           description = JStr [], source_file = lit ''metadata.json''\<rparr>,
         \<lparr>name = lit ''web'', namespace = lit ''acme_io'',
           description = JStr [], source_file = lit ''metadata.json''\<rparr>] {} []
      = [\<lparr>name = lit ''web'', namespace = lit ''acme.io'',
           description = JStr [], source_file = lit ''metadata.json''\<rparr>,
         \<lparr>name = lit ''web'', namespace = lit ''acme_io'',
           description = JStr [], source_file = lit ''metadata.json''\<rparr>]"
    by (simp add: Let_def lit_def)
  show "safe_name \<lparr>name = lit ''web'', namespace = lit ''acme.io'',
           description = JStr [], source_file = lit ''metadata.json''\<rparr>
      = safe_name \<lparr>name = lit ''web'', namespace = lit ''acme_io'',
           description = JStr [], source_file = lit ''metadata.json''\<rparr>"
    by (simp add: safe_name_def replace_def lit_def)
qed (rule process_colliding, rule dockerfiles_differ)

end
